theory Spec2Isabelle
  imports Main "HOL-Library.Word" "HOL-Library.Sublist"
begin

section \<open>Go values used by package ocsputil\<close>

text \<open>
  A Go \<^verbatim>\<open>[]byte\<close> is a byte list that may be the nil slice (\<open>None\<close>); the
  distinction matters because the fields of \<^verbatim>\<open>Evaluation\<close> are documented as nil or
  non-nil. A \<^verbatim>\<open>time.Time\<close> is a number of nanoseconds, \<open>0\<close> being the zero value
  (\<^verbatim>\<open>time.Time{}\<close>); a \<^verbatim>\<open>time.Duration\<close> is a number of nanoseconds as well.
\<close>

type_synonym byte = "8 word"
type_synonym bytes = "byte list option"
type_synonym Time = int
type_synonym Duration = int

text \<open>
  Errors. The three sentinels of lowlevel.go, an error produced by one of the libraries
  (carrying its message), and the two shapes \<^verbatim>\<open>fmt.Errorf\<close> produces in this package:
  a plain formatted message, and a message prefix wrapping another error with \<^verbatim>\<open>%w\<close>.
\<close>

datatype error =
    ErrUnknown
  | ErrNoResponder
  | ErrNoCheck
  | LibError string
  | Errorf string
  | ErrorfW string error

fun Error :: "error \<Rightarrow> string" where
  "Error ErrUnknown = ''OCSP responder does not know this certificate''"
| "Error ErrNoResponder = ''Certificate does not contain an HTTP OCSP responder URL''"
| "Error ErrNoCheck =
     ''Certificate is an OCSP responder certificate with the OCSP No Check extension''"
| "Error (LibError msg) = msg"
| "Error (Errorf msg) = msg"
| "Error (ErrorfW pre err) = pre @ Error err"

definition QueryTimeout :: Duration where
  "QueryTimeout = 10 * 1000000000"

definition oidOCSPNoCheck :: "int list" where
  "oidOCSPNoCheck = [1, 3, 6, 1, 5, 5, 7, 48, 1, 5]"

text \<open>\<^verbatim>\<open>x509.ExtKeyUsageOCSPSigning\<close> is the tenth constant of its iota block.\<close>

definition ExtKeyUsageOCSPSigning :: int where
  "ExtKeyUsageOCSPSigning = 9"

subsection \<open>crypto/x509 and golang.org/x/crypto/ocsp data\<close>

datatype PublicKey = PKIXPublicKey "byte list"

record Extension =
  Ext_Id :: "int list"
  Ext_Critical :: bool
  Ext_Value :: bytes

record Certificate =
  RawSubjectPublicKeyInfo :: bytes
  RawSubject :: bytes
  PublicKey :: "PublicKey option"
  OCSPServer :: "string list"
  ExtKeyUsage :: "int list"
  Extensions :: "Extension list"

text \<open>The zero value \<^verbatim>\<open>x509.Certificate{}\<close>.\<close>

definition Certificate_zero :: Certificate where
  "Certificate_zero =
     \<lparr>RawSubjectPublicKeyInfo = None, RawSubject = None, PublicKey = None,
      OCSPServer = [], ExtKeyUsage = [], Extensions = []\<rparr>"

text \<open>\<^verbatim>\<open>ocsp.Good\<close>, \<^verbatim>\<open>ocsp.Revoked\<close> and \<^verbatim>\<open>ocsp.Unknown\<close> are the integers 0, 1, 2.\<close>

definition ocsp_Good :: int where "ocsp_Good = 0"
definition ocsp_Revoked :: int where "ocsp_Revoked = 1"
definition ocsp_Unknown :: int where "ocsp_Unknown = 2"

record OCSPResponse =
  OCSP_Status :: int
  RevokedAt :: Time

subsection \<open>context and net/http data\<close>

record Context =
  Deadline :: "Time option"

text \<open>\<^verbatim>\<open>context.Background()\<close> has no deadline.\<close>

definition context_Background :: Context where
  "context_Background = \<lparr>Deadline = None\<rparr>"

type_synonym Header = "string \<rightharpoonup> string list"

record Request =
  Method :: string
  URL :: string
  ReqHeader :: Header
  ReqBody :: "byte list"
  Ctx :: Context

text \<open>
  An \<^verbatim>\<open>http.Response\<close>. \<open>RespBody\<close> is what \<^verbatim>\<open>io.ReadAll(httpResponse.Body)\<close> returns:
  the bytes read (never the nil slice) and the read error, if any. The time the read
  takes is part of the client's step.
\<close>

record Response =
  StatusCode :: int
  Status :: string
  RespHeader :: Header
  RespBody :: "byte list \<times> error option"

text \<open>
  An \<^verbatim>\<open>*http.Client\<close> is its \<^verbatim>\<open>Do\<close> method: it takes the request and the state of
  the outside world (network and clock), and returns a response or an error together
  with the new state of the world.
\<close>

type_synonym 'w Client = "Request \<Rightarrow> 'w \<Rightarrow> (error + Response) \<times> 'w"

text \<open>
  The libraries the package is a wrapper around are parameters of the model. Each
  fallible library function returns either its error or its result, which is the
  contract of the Go functions (a nil result with the error, a non-nil one without).
\<close>

record 'w Env =
  x509_ParseCertificate :: "bytes \<Rightarrow> error + Certificate"
  x509_ParsePKIXPublicKey :: "bytes \<Rightarrow> error + PublicKey"
  ocsp_CreateRequest :: "Certificate \<Rightarrow> Certificate \<Rightarrow> error + byte list"
  ocsp_ParseResponseForCert :: "bytes \<Rightarrow> Certificate \<Rightarrow> Certificate \<Rightarrow> error + OCSPResponse"
  url_Parse :: "string \<Rightarrow> error + string"
  time_Now :: "'w \<Rightarrow> Time \<times> 'w"
  http_DefaultClient :: "'w Client"

text \<open>\<^verbatim>\<open>strings.HasPrefix\<close>: \<^verbatim>\<open>len(s) >= len(prefix) && s[:len(prefix)] == prefix\<close>.\<close>

definition strings_HasPrefix :: "string \<Rightarrow> string \<Rightarrow> bool" where
  "strings_HasPrefix s pre \<longleftrightarrow> length pre \<le> length s \<and> take (length pre) s = pre"

text \<open>
  \<^verbatim>\<open>context.WithTimeout(parent, d)\<close> is \<^verbatim>\<open>WithDeadline(parent, time.Now().Add(d))\<close>, and
  \<^verbatim>\<open>WithDeadline\<close> keeps the parent's deadline when that one is earlier.
\<close>

definition context_WithDeadline :: "Context \<Rightarrow> Time \<Rightarrow> Context" where
  "context_WithDeadline parent d =
     (case Deadline parent of
        Some cur \<Rightarrow> if cur < d then parent else parent\<lparr>Deadline := Some d\<rparr>
      | None \<Rightarrow> parent\<lparr>Deadline := Some d\<rparr>)"

definition context_WithTimeout :: "'w Env \<Rightarrow> Context \<Rightarrow> Duration \<Rightarrow> 'w \<Rightarrow> Context \<times> 'w" where
  "context_WithTimeout env parent timeout w =
     (case time_Now env w of (now, w') \<Rightarrow> (context_WithDeadline parent (now + timeout), w'))"

text \<open>
  \<^verbatim>\<open>http.NewRequestWithContext\<close> fails when the URL does not parse; otherwise the
  request has the given method, context and body, and an empty header.
\<close>

definition http_NewRequestWithContext ::
  "'w Env \<Rightarrow> Context \<Rightarrow> string \<Rightarrow> string \<Rightarrow> bytes \<Rightarrow> error + Request" where
  "http_NewRequestWithContext env ctx method url body =
     (case url_Parse env url of
        Inl err \<Rightarrow> Inl err
      | Inr u \<Rightarrow>
          Inr \<lparr>Method = method, URL = u, ReqHeader = Map.empty,
               ReqBody = (case body of None \<Rightarrow> [] | Some b \<Rightarrow> b), Ctx = ctx\<rparr>)"

text \<open>
  \<^verbatim>\<open>Header.Set\<close> and \<^verbatim>\<open>Header.Get\<close>, on keys that are already in canonical form (the
  only keys this package uses).
\<close>

definition Header_Set :: "Header \<Rightarrow> string \<Rightarrow> string \<Rightarrow> Header" where
  "Header_Set h key val = h(key \<mapsto> [val])"

definition Header_Get :: "Header \<Rightarrow> string \<Rightarrow> string" where
  "Header_Get h key = (case h key of None \<Rightarrow> [] | Some [] \<Rightarrow> [] | Some (v # _) \<Rightarrow> v)"

section \<open>lowlevel.go\<close>

fun getOCSPServer_range :: "string list \<Rightarrow> string" where
  "getOCSPServer_range [] = []"
| "getOCSPServer_range (server # rest) =
     (if strings_HasPrefix server ''http://'' then server else getOCSPServer_range rest)"

definition getOCSPServer :: "Certificate \<Rightarrow> string" where
  "getOCSPServer cert = getOCSPServer_range (OCSPServer cert)"

fun isOCSPResponderCert_range :: "int list \<Rightarrow> bool" where
  "isOCSPResponderCert_range [] = False"
| "isOCSPResponderCert_range (eku # rest) =
     (if eku = ExtKeyUsageOCSPSigning then True else isOCSPResponderCert_range rest)"

definition isOCSPResponderCert :: "Certificate \<Rightarrow> bool" where
  "isOCSPResponderCert cert = isOCSPResponderCert_range (ExtKeyUsage cert)"

fun hasOCSPNoCheck_range :: "Extension list \<Rightarrow> bool" where
  "hasOCSPNoCheck_range [] = False"
| "hasOCSPNoCheck_range (ext # rest) =
     (if Ext_Id ext = oidOCSPNoCheck then True else hasOCSPNoCheck_range rest)"

definition hasOCSPNoCheck :: "Certificate \<Rightarrow> bool" where
  "hasOCSPNoCheck cert = hasOCSPNoCheck_range (Extensions cert)"

text \<open>
  \<^verbatim>\<open>ParseCertificate\<close> returns its error or the pair of certificates; no caller reads
  the certificates when there is an error.
\<close>

definition ParseCertificate ::
  "'w Env \<Rightarrow> bytes \<Rightarrow> bytes \<Rightarrow> bytes \<Rightarrow> error + (Certificate \<times> Certificate)" where
  "ParseCertificate env certData issuerSubject issuerPubkeyBytes =
     (case x509_ParseCertificate env certData of
        Inl err \<Rightarrow> Inl (ErrorfW ''unable to parse certificate: '' err)
      | Inr cert \<Rightarrow>
          (case x509_ParsePKIXPublicKey env issuerPubkeyBytes of
             Inl err \<Rightarrow> Inl (ErrorfW ''unable to parse issuer public key: '' err)
           | Inr issuerPubkey \<Rightarrow>
               Inr (cert,
                    Certificate_zero\<lparr>RawSubjectPublicKeyInfo := issuerPubkeyBytes,
                                     RawSubject := issuerSubject,
                                     PublicKey := Some issuerPubkey\<rparr>)))"

text \<open>
  \<^verbatim>\<open>CreateRequest\<close> has named results \<^verbatim>\<open>(serverURL, requestBytes, err)\<close> and returns
  all three on every path, so the model returns the triple.
\<close>

definition CreateRequest ::
  "'w Env \<Rightarrow> Certificate \<Rightarrow> Certificate \<Rightarrow> string \<times> bytes \<times> error option" where
  "CreateRequest env cert issuerCert =
     (let serverURL = getOCSPServer cert in
      if serverURL = [] then (serverURL, None, Some ErrNoResponder)
      else if isOCSPResponderCert cert \<and> hasOCSPNoCheck cert
        then (serverURL, None, Some ErrNoCheck)
      else
        (case ocsp_CreateRequest env cert issuerCert of
           Inl err \<Rightarrow> (serverURL, None, Some (ErrorfW ''error creating OCSP request: '' err))
         | Inr requestBytes \<Rightarrow> (serverURL, Some requestBytes, None)))"

text \<open>
  \<^verbatim>\<open>Query\<close> returns \<^verbatim>\<open>([]byte, error)\<close> and changes the world through the client.
  Its body is three blocks, modelled one by one: building the request under the
  timeout context (\<open>Query_newRequest\<close>), the call of \<^verbatim>\<open>httpClient.Do\<close>, and reading
  and validating the response (\<open>Query_readResponse\<close>).
\<close>

definition Query_newRequest ::
  "'w Env \<Rightarrow> Context \<Rightarrow> string \<Rightarrow> bytes \<Rightarrow> 'w \<Rightarrow> (error + Request) \<times> 'w" where
  "Query_newRequest env ctx0 serverURL requestBytes w0 =
     (case context_WithTimeout env ctx0 QueryTimeout w0 of (ctx, w1) \<Rightarrow>
        (case http_NewRequestWithContext env ctx ''POST'' serverURL requestBytes of
           Inl err \<Rightarrow> (Inl (ErrorfW ''error with OCSP responder URL: '' err), w1)
         | Inr httpRequest \<Rightarrow>
             (Inr (httpRequest\<lparr>ReqHeader :=
                     (Header_Set (ReqHeader httpRequest) ''Content-Type''
                        ''application/ocsp-request'')
                     (''Idempotency-Key'' \<mapsto> [])\<rparr>),
              w1)))"

definition Query_readResponse :: "Response \<Rightarrow> bytes \<times> error option" where
  "Query_readResponse httpResponse =
     (case RespBody httpResponse of
        (body, Some err) \<Rightarrow>
          (None, Some (ErrorfW ''error reading response from OCSP responder: '' err))
      | (body, None) \<Rightarrow>
          if StatusCode httpResponse \<noteq> 200 then
            (None, Some (Errorf (''HTTP error from OCSP responder: '' @ Status httpResponse)))
          else
            (let contentType = Header_Get (RespHeader httpResponse) ''Content-Type'' in
               if contentType \<noteq> ''application/ocsp-response'' then
                 (None,
                  Some (Errorf (''HTTP response header has invalid Content-Type value ''
                                @ contentType)))
               else (Some body, None)))"

definition Query ::
  "'w Env \<Rightarrow> Context \<Rightarrow> string \<Rightarrow> bytes \<Rightarrow> 'w Client \<Rightarrow> 'w \<Rightarrow> (bytes \<times> error option) \<times> 'w" where
  "Query env ctx serverURL requestBytes httpClient w0 =
     (case Query_newRequest env ctx serverURL requestBytes w0 of
        (Inl err, w1) \<Rightarrow> ((None, Some err), w1)
      | (Inr httpRequest, w1) \<Rightarrow>
          (case httpClient httpRequest w1 of
             (Inl err, w2) \<Rightarrow>
               ((None, Some (ErrorfW ''error querying OCSP responder over HTTP: '' err)), w2)
           | (Inr httpResponse, w2) \<Rightarrow> (Query_readResponse httpResponse, w2)))"

text \<open>
  \<^verbatim>\<open>CheckResponse\<close> has named results \<^verbatim>\<open>(revoked, revocationTime, err)\<close>, which start
  as \<^verbatim>\<open>false\<close>, the zero time and \<^verbatim>\<open>nil\<close>.
\<close>

definition CheckResponse ::
  "'w Env \<Rightarrow> Certificate \<Rightarrow> Certificate \<Rightarrow> bytes \<Rightarrow> bool \<times> Time \<times> error option" where
  "CheckResponse env cert issuerCert responseBytes =
     (case ocsp_ParseResponseForCert env responseBytes cert issuerCert of
        Inl err \<Rightarrow> (False, 0, Some (ErrorfW ''error parsing OCSP response: '' err))
      | Inr response \<Rightarrow>
          if OCSP_Status response = ocsp_Good then (False, 0, None)
          else if OCSP_Status response = ocsp_Revoked then (True, RevokedAt response, None)
          else (False, 0, Some ErrUnknown))"

section \<open>The wrappers CheckCert and CheckRawCert\<close>

definition CheckCert ::
  "'w Env \<Rightarrow> Context \<Rightarrow> Certificate \<Rightarrow> Certificate \<Rightarrow> 'w Client \<Rightarrow> 'w
     \<Rightarrow> (bool \<times> Time \<times> error option) \<times> 'w" where
  "CheckCert env ctx cert issuerCert httpClient w =
     (case CreateRequest env cert issuerCert of
        (serverURL, requestBytes, Some err) \<Rightarrow> ((False, 0, Some err), w)
      | (serverURL, requestBytes, None) \<Rightarrow>
          (case Query env ctx serverURL requestBytes httpClient w of
             ((responseBytes, Some err), w') \<Rightarrow> ((False, 0, Some err), w')
           | ((responseBytes, None), w') \<Rightarrow>
               (CheckResponse env cert issuerCert responseBytes, w')))"

definition CheckRawCert ::
  "'w Env \<Rightarrow> Context \<Rightarrow> bytes \<Rightarrow> bytes \<Rightarrow> bytes \<Rightarrow> 'w Client \<Rightarrow> 'w
     \<Rightarrow> (bool \<times> Time \<times> error option) \<times> 'w" where
  "CheckRawCert env ctx certData issuerSubject issuerPubkeyBytes httpClient w =
     (case ParseCertificate env certData issuerSubject issuerPubkeyBytes of
        Inl err \<Rightarrow> ((False, 0, Some err), w)
      | Inr (cert, issuerCert) \<Rightarrow> CheckCert env ctx cert issuerCert httpClient w)"

section \<open>Config and Evaluate\<close>

record 'w Config =
  HTTPClient :: "'w Client option"
  UserAgent :: string

text \<open>
  The methods \<^verbatim>\<open>(*Config).httpClient\<close> and \<^verbatim>\<open>(*Config).userAgent\<close>; their receiver
  may be nil.
\<close>

definition Config_httpClient :: "'w Env \<Rightarrow> 'w Config option \<Rightarrow> 'w Client" where
  "Config_httpClient env config =
     (case config of
        Some c \<Rightarrow> (case HTTPClient c of Some cl \<Rightarrow> cl | None \<Rightarrow> http_DefaultClient env)
      | None \<Rightarrow> http_DefaultClient env)"

definition Config_userAgent :: "'w Config option \<Rightarrow> string" where
  "Config_userAgent config = (case config of Some c \<Rightarrow> UserAgent c | None \<Rightarrow> [])"

record Evaluation =
  ResponderURL :: "string option"
  RequestBytes :: bytes
  ResponseBytes :: bytes
  ResponseTime :: Duration
  Err :: "error option"

text \<open>The zero value of \<^verbatim>\<open>Evaluation\<close>, which the named result \<^verbatim>\<open>eval\<close> starts as.\<close>

definition Evaluation_zero :: Evaluation where
  "Evaluation_zero =
     \<lparr>ResponderURL = None, RequestBytes = None, ResponseBytes = None,
      ResponseTime = 0, Err = None\<rparr>"

text \<open>
  \<^verbatim>\<open>timedQuery\<close> hands its \<^verbatim>\<open>config\<close> to \<^verbatim>\<open>Query\<close>, whose last parameter in
  lowlevel.go is the \<^verbatim>\<open>*http.Client\<close>: the client that reaches \<^verbatim>\<open>Query\<close> is the one
  \<^verbatim>\<open>config.httpClient()\<close> selects. \<^verbatim>\<open>Query\<close> has no parameter for the User-Agent
  string and never calls \<^verbatim>\<open>config.userAgent()\<close>.
\<close>

definition timedQuery ::
  "'w Env \<Rightarrow> Context \<Rightarrow> string \<Rightarrow> bytes \<Rightarrow> 'w Config option \<Rightarrow> 'w
     \<Rightarrow> (bytes \<times> Duration \<times> error option) \<times> 'w" where
  "timedQuery env ctx serverURL requestBytes config w0 =
     (case time_Now env w0 of (startTime, w1) \<Rightarrow>
        (case Query env ctx serverURL requestBytes (Config_httpClient env config) w1 of
           ((responseBytes, err), w2) \<Rightarrow>
             (case time_Now env w2 of (now, w3) \<Rightarrow>
                ((responseBytes, now - startTime, err), w3))))"

definition Evaluate ::
  "'w Env \<Rightarrow> Context \<Rightarrow> bytes \<Rightarrow> bytes \<Rightarrow> bytes \<Rightarrow> 'w Config option \<Rightarrow> 'w
     \<Rightarrow> Evaluation \<times> 'w" where
  "Evaluate env ctx certData issuerSubject issuerPubkey config w =
     (case ParseCertificate env certData issuerSubject issuerPubkey of
        Inl err \<Rightarrow> (Evaluation_zero\<lparr>Err := Some err\<rparr>, w)
      | Inr (cert, issuerCert) \<Rightarrow>
          (case CreateRequest env cert issuerCert of
             (serverURL, requestBytes, Some err) \<Rightarrow> (Evaluation_zero\<lparr>Err := Some err\<rparr>, w)
           | (serverURL, requestBytes, None) \<Rightarrow>
               (let eval1 = Evaluation_zero\<lparr>ResponderURL := Some serverURL,
                                            RequestBytes := requestBytes\<rparr>
                in
                  (case timedQuery env ctx serverURL requestBytes config w of
                     ((responseBytes, responseTime, Some err), w') \<Rightarrow>
                       (eval1\<lparr>Err := Some err\<rparr>, w')
                   | ((responseBytes, responseTime, None), w') \<Rightarrow>
                       (let eval2 = eval1\<lparr>ResponseBytes := responseBytes,
                                          ResponseTime := responseTime\<rparr>
                        in
                          (case CheckResponse env cert issuerCert responseBytes of
                             (_, _, Some err) \<Rightarrow> (eval2\<lparr>Err := Some err\<rparr>, w')
                           | (_, _, None) \<Rightarrow> (eval2, w')))))))"

section \<open>A test bench: certificates and a mock responder\<close>

text \<open>
  The world of the test bench is a clock and the log of the HTTP requests that went
  out. The mock client answers every request with the same response after a quarter of
  a second; the mock libraries reject empty input and accept everything else.
\<close>

record World =
  clock :: Time
  sent :: "Request list"

definition world0 :: World where
  "world0 = \<lparr>clock = 1000, sent = []\<rparr>"

definition mock_client :: "Response \<Rightarrow> World Client" where
  "mock_client resp req w = (Inr resp, w\<lparr>clock := clock w + 250000000, sent := sent w @ [req]\<rparr>)"

definition mock_env :: "Certificate \<Rightarrow> OCSPResponse \<Rightarrow> Response \<Rightarrow> World Env" where
  "mock_env cert ocspResponse httpResponse =
     \<lparr>x509_ParseCertificate =
        (\<lambda>data. case data of
                  Some (b # bs) \<Rightarrow> Inr cert
                | _ \<Rightarrow> Inl (LibError ''x509: malformed certificate'')),
      x509_ParsePKIXPublicKey =
        (\<lambda>data. case data of
                  Some (b # bs) \<Rightarrow> Inr (PKIXPublicKey (b # bs))
                | _ \<Rightarrow> Inl (LibError ''x509: failed to parse public key'')),
      ocsp_CreateRequest = (\<lambda>cert issuer. Inr [0x30, 0x03, 0x0A, 0x01, 0x00]),
      ocsp_ParseResponseForCert =
        (\<lambda>data cert issuer. case data of
                  Some (b # bs) \<Rightarrow> Inr ocspResponse
                | _ \<Rightarrow> Inl (LibError ''ocsp: malformed response'')),
      url_Parse = (\<lambda>s. Inr s),
      time_Now = (\<lambda>w. (clock w, w)),
      http_DefaultClient = mock_client httpResponse\<rparr>"

definition leaf_cert :: Certificate where
  "leaf_cert =
     Certificate_zero\<lparr>OCSPServer :=
       [''ldap://ocsp.example.com'', ''http://ocsp.example.com'', ''http://ocsp2.example.com'']\<rparr>"

definition https_only_cert :: Certificate where
  "https_only_cert = Certificate_zero\<lparr>OCSPServer := [''https://ocsp.example.com'']\<rparr>"

definition responder_cert_no_uri :: Certificate where
  "responder_cert_no_uri =
     Certificate_zero\<lparr>ExtKeyUsage := [ExtKeyUsageOCSPSigning],
       Extensions := [\<lparr>Ext_Id = oidOCSPNoCheck, Ext_Critical = False, Ext_Value = Some [5, 0]\<rparr>]\<rparr>"

definition responder_cert :: Certificate where
  "responder_cert = responder_cert_no_uri\<lparr>OCSPServer := [''http://ocsp.example.com'']\<rparr>"

definition issuer_stub :: Certificate where
  "issuer_stub =
     Certificate_zero\<lparr>RawSubjectPublicKeyInfo := Some [0x30, 0x59],
                      RawSubject := Some [0x30, 0x11],
                      PublicKey := Some (PKIXPublicKey [0x30, 0x59])\<rparr>"

definition ocsp_good :: OCSPResponse where
  "ocsp_good = \<lparr>OCSP_Status = ocsp_Good, RevokedAt = 0\<rparr>"

definition ocsp_unknown :: OCSPResponse where
  "ocsp_unknown = \<lparr>OCSP_Status = ocsp_Unknown, RevokedAt = 0\<rparr>"

definition ocsp_revoked :: "Time \<Rightarrow> OCSPResponse" where
  "ocsp_revoked t = \<lparr>OCSP_Status = ocsp_Revoked, RevokedAt = t\<rparr>"

definition http_response :: "int \<Rightarrow> string \<Rightarrow> string \<Rightarrow> Response" where
  "http_response code status contentType =
     \<lparr>StatusCode = code, Status = status,
      RespHeader = [''Content-Type'' \<mapsto> [contentType]],
      RespBody = ([0x30, 0x03, 0x0A, 0x01, 0x00], None)\<rparr>"

definition http_ok :: Response where
  "http_ok = http_response 200 ''200 OK'' ''application/ocsp-response''"


definition http_unavailable_text :: Response where
  "http_unavailable_text = http_response 503 ''503 Service Unavailable'' ''text/plain''"

definition http_ok_text :: Response where
  "http_ok_text = http_response 200 ''200 OK'' ''text/plain''"

definition http_internal_error :: Response where
  "http_internal_error =
     http_response 500 ''500 Internal Server Error'' ''application/ocsp-response''"

definition ctx_deadline :: "Time \<Rightarrow> Context" where
  "ctx_deadline d = \<lparr>Deadline = Some d\<rparr>"

definition ua_config :: "World Config" where
  "ua_config = \<lparr>HTTPClient = None, UserAgent = ''evalocsp/1.0''\<rparr>"

text \<open>
  Three more clients and responses: a client that answers after an hour whatever the
  context of the request says; a client that needs the given time to answer and gives
  up at the deadline of the request's context (at once when the deadline has passed);
  and a response with status 500 whose body breaks off while it is read.
\<close>

definition slow_client :: "Response \<Rightarrow> World Client" where
  "slow_client resp req w =
     (Inr resp, w\<lparr>clock := clock w + 3600000000000, sent := sent w @ [req]\<rparr>)"

definition deadline_client :: "Duration \<Rightarrow> Response \<Rightarrow> World Client" where
  "deadline_client delay resp req w =
     (case Deadline (Ctx req) of
        None \<Rightarrow> (Inr resp, w\<lparr>clock := clock w + delay, sent := sent w @ [req]\<rparr>)
      | Some d \<Rightarrow>
          if d < clock w + delay then
            (Inl (LibError ''context deadline exceeded''),
             w\<lparr>clock := max d (clock w), sent := sent w @ [req]\<rparr>)
          else (Inr resp, w\<lparr>clock := clock w + delay, sent := sent w @ [req]\<rparr>))"

definition http_internal_error_truncated :: Response where
  "http_internal_error_truncated =
     http_internal_error\<lparr>RespBody := ([0x30], Some (LibError ''unexpected EOF''))\<rparr>"

section \<open>Request building\<close>

lemma getOCSPServer_range_find:
  "getOCSPServer_range servers =
     (case find (\<lambda>s. strings_HasPrefix s ''http://'') servers of None \<Rightarrow> [] | Some u \<Rightarrow> u)"
  by (induction servers) simp_all

lemma strings_HasPrefix_http_nonempty: "strings_HasPrefix s ''http://'' \<Longrightarrow> s \<noteq> []"
  by (auto simp: strings_HasPrefix_def)

lemma getOCSPServer_empty_iff:
  "getOCSPServer cert = [] \<longleftrightarrow> (\<forall>s \<in> set (OCSPServer cert). \<not> strings_HasPrefix s ''http://'')"
proof -
  have "getOCSPServer_range servers = [] \<longleftrightarrow>
          (\<forall>s \<in> set servers. \<not> strings_HasPrefix s ''http://'')" for servers
    by (induction servers) (auto dest: strings_HasPrefix_http_nonempty)
  then show ?thesis by (simp add: getOCSPServer_def)
qed

lemma isOCSPResponderCert_iff:
  "isOCSPResponderCert cert \<longleftrightarrow> ExtKeyUsageOCSPSigning \<in> set (ExtKeyUsage cert)"
proof -
  have "isOCSPResponderCert_range ekus \<longleftrightarrow> ExtKeyUsageOCSPSigning \<in> set ekus" for ekus
    by (induction ekus) auto
  then show ?thesis by (simp add: isOCSPResponderCert_def)
qed

lemma hasOCSPNoCheck_iff:
  "hasOCSPNoCheck cert \<longleftrightarrow> (\<exists>ext \<in> set (Extensions cert). Ext_Id ext = oidOCSPNoCheck)"
proof -
  have "hasOCSPNoCheck_range exts \<longleftrightarrow> (\<exists>ext \<in> set exts. Ext_Id ext = oidOCSPNoCheck)" for exts
    by (induction exts) auto
  then show ?thesis by (simp add: hasOCSPNoCheck_def)
qed

lemma CreateRequest_serverURL: "fst (CreateRequest env cert issuerCert) = getOCSPServer cert"
  by (simp add: CreateRequest_def Let_def split: sum.split)

text \<open>
  C6. A certificate whose OCSP responder URI list has no entry beginning with
  \<^verbatim>\<open>http://\<close> makes \<open>CreateRequest\<close> fail with \<open>ErrNoResponder\<close>; when the list has
  such an entry, the responder URL that \<open>CreateRequest\<close> returns is the first of them
  (\<open>find\<close> returns the first element of a list that satisfies a predicate).
\<close>

theorem CreateRequest_selects_first_http_responder:
  "((\<forall>s \<in> set (OCSPServer cert). \<not> strings_HasPrefix s ''http://'') \<longrightarrow>
      snd (snd (CreateRequest env cert issuerCert)) = Some ErrNoResponder)
   \<and> (\<forall>u. find (\<lambda>s. strings_HasPrefix s ''http://'') (OCSPServer cert) = Some u \<longrightarrow>
        fst (CreateRequest env cert issuerCert) = u)"
proof (intro conjI impI allI)
  assume "\<forall>s \<in> set (OCSPServer cert). \<not> strings_HasPrefix s ''http://''"
  then have "getOCSPServer cert = []" by (simp add: getOCSPServer_empty_iff)
  then show "snd (snd (CreateRequest env cert issuerCert)) = Some ErrNoResponder"
    by (simp add: CreateRequest_def)
next
  fix u assume "find (\<lambda>s. strings_HasPrefix s ''http://'') (OCSPServer cert) = Some u"
  then have "getOCSPServer cert = u"
    by (simp add: getOCSPServer_def getOCSPServer_range_find)
  then show "fst (CreateRequest env cert issuerCert) = u"
    by (simp add: CreateRequest_serverURL)
qed

theorem CreateRequest_selects_first_http_responder_witness:
  "snd (snd (CreateRequest (mock_env https_only_cert ocsp_good http_ok) https_only_cert
               issuer_stub)) = Some ErrNoResponder
   \<and> fst (CreateRequest (mock_env leaf_cert ocsp_good http_ok) leaf_cert issuer_stub)
       = ''http://ocsp.example.com''"
proof -
  have none: "\<forall>s \<in> set (OCSPServer https_only_cert). \<not> strings_HasPrefix s ''http://''"
    by (simp add: https_only_cert_def Certificate_zero_def strings_HasPrefix_def)
  have first: "find (\<lambda>s. strings_HasPrefix s ''http://'') (OCSPServer leaf_cert)
                 = Some ''http://ocsp.example.com''"
    by (simp add: leaf_cert_def Certificate_zero_def strings_HasPrefix_def)
  from CreateRequest_selects_first_http_responder
         [of https_only_cert "mock_env https_only_cert ocsp_good http_ok" issuer_stub]
       none
  have a: "snd (snd (CreateRequest (mock_env https_only_cert ocsp_good http_ok) https_only_cert
               issuer_stub)) = Some ErrNoResponder"
    by blast
  from CreateRequest_selects_first_http_responder
         [of leaf_cert "mock_env leaf_cert ocsp_good http_ok" issuer_stub]
       first
  have b: "fst (CreateRequest (mock_env leaf_cert ocsp_good http_ok) leaf_cert issuer_stub)
       = ''http://ocsp.example.com''"
    by blast
  from a b show ?thesis by simp
qed

text \<open>
  C2, as stated, fails: the responder URI is looked up first, so an OCSP responder
  certificate with the No-Check extension and no \<^verbatim>\<open>http://\<close> responder URI is answered
  with \<open>ErrNoResponder\<close>, not \<open>ErrNoCheck\<close>.
\<close>

theorem CreateRequest_NoCheck_without_responder_counterexample:
  "isOCSPResponderCert responder_cert_no_uri
   \<and> hasOCSPNoCheck responder_cert_no_uri
   \<and> OCSPServer responder_cert_no_uri = []
   \<and> snd (snd (CreateRequest (mock_env responder_cert_no_uri ocsp_good http_ok)
                 responder_cert_no_uri issuer_stub)) = Some ErrNoResponder
   \<and> snd (snd (CreateRequest (mock_env responder_cert_no_uri ocsp_good http_ok)
                 responder_cert_no_uri issuer_stub)) \<noteq> Some ErrNoCheck"
  by (simp add: CreateRequest_def getOCSPServer_def isOCSPResponderCert_def
        hasOCSPNoCheck_def responder_cert_no_uri_def Certificate_zero_def)

text \<open>
  C2, amended. For every certificate whose extended key usage includes OCSP signing and
  that carries the OCSP-No-Check extension: if its responder URI list has an entry
  beginning with \<^verbatim>\<open>http://\<close>, \<open>CreateRequest\<close> fails with \<open>ErrNoCheck\<close>; if it has
  none, \<open>CreateRequest\<close> fails with \<open>ErrNoResponder\<close>.
\<close>

theorem CreateRequest_NoCheck:
  assumes "ExtKeyUsageOCSPSigning \<in> set (ExtKeyUsage cert)"
    and "\<exists>ext \<in> set (Extensions cert). Ext_Id ext = oidOCSPNoCheck"
  shows "((\<exists>s \<in> set (OCSPServer cert). strings_HasPrefix s ''http://'') \<longrightarrow>
            snd (snd (CreateRequest env cert issuerCert)) = Some ErrNoCheck)
         \<and> ((\<forall>s \<in> set (OCSPServer cert). \<not> strings_HasPrefix s ''http://'') \<longrightarrow>
            snd (snd (CreateRequest env cert issuerCert)) = Some ErrNoResponder)"
proof -
  from assms have resp: "isOCSPResponderCert cert" and nocheck: "hasOCSPNoCheck cert"
    by (simp_all add: isOCSPResponderCert_iff hasOCSPNoCheck_iff)
  show ?thesis
  proof (cases "getOCSPServer cert = []")
    case True
    then show ?thesis
      by (auto simp: CreateRequest_def getOCSPServer_empty_iff)
  next
    case False
    with resp nocheck have "snd (snd (CreateRequest env cert issuerCert)) = Some ErrNoCheck"
      by (simp add: CreateRequest_def)
    with False show ?thesis
      by (auto simp: getOCSPServer_empty_iff)
  qed
qed

theorem CreateRequest_NoCheck_witness:
  "snd (snd (CreateRequest (mock_env responder_cert ocsp_good http_ok) responder_cert
               issuer_stub)) = Some ErrNoCheck
   \<and> snd (snd (CreateRequest (mock_env responder_cert_no_uri ocsp_good http_ok)
               responder_cert_no_uri issuer_stub)) = Some ErrNoResponder"
proof -
  have eku: "ExtKeyUsageOCSPSigning \<in> set (ExtKeyUsage responder_cert)"
    and ext: "\<exists>ext \<in> set (Extensions responder_cert). Ext_Id ext = oidOCSPNoCheck"
    and uri: "\<exists>s \<in> set (OCSPServer responder_cert). strings_HasPrefix s ''http://''"
    by (simp_all add: responder_cert_def responder_cert_no_uri_def Certificate_zero_def
          strings_HasPrefix_def)
  have eku': "ExtKeyUsageOCSPSigning \<in> set (ExtKeyUsage responder_cert_no_uri)"
    and ext': "\<exists>ext \<in> set (Extensions responder_cert_no_uri). Ext_Id ext = oidOCSPNoCheck"
    and uri': "\<forall>s \<in> set (OCSPServer responder_cert_no_uri). \<not> strings_HasPrefix s ''http://''"
    by (simp_all add: responder_cert_no_uri_def Certificate_zero_def)
  from CreateRequest_NoCheck [OF eku ext, of "mock_env responder_cert ocsp_good http_ok"
         issuer_stub] uri
  have a: "snd (snd (CreateRequest (mock_env responder_cert ocsp_good http_ok) responder_cert
               issuer_stub)) = Some ErrNoCheck"
    by blast
  from CreateRequest_NoCheck [OF eku' ext', of "mock_env responder_cert_no_uri ocsp_good http_ok"
         issuer_stub] uri'
  have b: "snd (snd (CreateRequest (mock_env responder_cert_no_uri ocsp_good http_ok)
               responder_cert_no_uri issuer_stub)) = Some ErrNoResponder"
    by blast
  from a b show ?thesis by simp
qed

section \<open>Checking the response\<close>

lemma CheckResponse_error_zero:
  "CheckResponse env cert issuerCert responseBytes = (revoked, revocationTime, Some err)
     \<Longrightarrow> \<not> revoked \<and> revocationTime = 0"
  by (auto simp: CheckResponse_def split: sum.splits if_splits)

lemma CheckCert_error_zero:
  "CheckCert env ctx cert issuerCert cl w = ((revoked, revocationTime, Some err), w')
     \<Longrightarrow> \<not> revoked \<and> revocationTime = 0"
  by (auto simp: CheckCert_def split: prod.splits option.splits
        dest: CheckResponse_error_zero)

lemma CheckResponse_ok:
  assumes "CheckResponse env cert issuerCert responseBytes = (revoked, revocationTime, None)"
  shows "\<exists>response. ocsp_ParseResponseForCert env responseBytes cert issuerCert = Inr response
           \<and> (OCSP_Status response = ocsp_Good \<and> \<not> revoked \<and> revocationTime = 0
              \<or> OCSP_Status response = ocsp_Revoked \<and> revoked
                  \<and> revocationTime = RevokedAt response)"
  using assms
  by (auto simp: CheckResponse_def ocsp_Good_def ocsp_Revoked_def split: sum.splits if_splits)

lemma CheckCert_ok:
  assumes "CheckCert env ctx cert issuerCert cl w = ((revoked, revocationTime, None), w')"
  shows "\<exists>responseBytes.
           CheckResponse env cert issuerCert responseBytes = (revoked, revocationTime, None)"
  using assms
  by (auto simp: CheckCert_def split: prod.splits option.splits)

text \<open>
  C4, as stated, fails: \<open>CheckResponse\<close> copies \<^verbatim>\<open>response.RevokedAt\<close> without looking
  at it, so a response with status revoked whose revocation time is the zero time is
  reported as revoked with a zero timestamp.
\<close>

theorem CheckResponse_revoked_at_zero_time_counterexample:
  "CheckResponse (mock_env leaf_cert (ocsp_revoked 0) http_ok) leaf_cert issuer_stub
     (Some [0x30, 0x03, 0x0A, 0x01, 0x00]) = (True, 0, None)"
  by (simp add: CheckResponse_def mock_env_def ocsp_revoked_def ocsp_Good_def
        ocsp_Revoked_def)

text \<open>
  C4, amended. For every run of \<open>CheckResponse\<close> that returns without error: a
  non-zero revocation timestamp implies \<open>revoked\<close>; \<open>revoked = False\<close> implies the
  zero timestamp; and when \<open>revoked\<close> holds, the response has status revoked and the
  timestamp returned is its \<open>RevokedAt\<close>, whatever that is. The first two hold for
  every successful run of \<open>CheckCert\<close> and \<open>CheckRawCert\<close> as well.
\<close>

theorem successful_check_revocation_time:
  "(CheckResponse env cert issuerCert responseBytes = (revoked, revocationTime, None) \<longrightarrow>
      (revocationTime \<noteq> 0 \<longrightarrow> revoked)
      \<and> (\<not> revoked \<longrightarrow> revocationTime = 0)
      \<and> (revoked \<longrightarrow>
           (\<exists>response.
              ocsp_ParseResponseForCert env responseBytes cert issuerCert = Inr response
              \<and> OCSP_Status response = ocsp_Revoked
              \<and> revocationTime = RevokedAt response)))
   \<and> (CheckCert env ctx cert issuerCert cl w = ((revoked', revocationTime', None), w') \<longrightarrow>
        (revocationTime' \<noteq> 0 \<longrightarrow> revoked') \<and> (\<not> revoked' \<longrightarrow> revocationTime' = 0))
   \<and> (CheckRawCert env ctx certData issuerSubject issuerPubkeyBytes cl w
         = ((revoked'', revocationTime'', None), w'') \<longrightarrow>
        (revocationTime'' \<noteq> 0 \<longrightarrow> revoked'') \<and> (\<not> revoked'' \<longrightarrow> revocationTime'' = 0))"
proof (intro conjI impI)
  assume r: "CheckResponse env cert issuerCert responseBytes = (revoked, revocationTime, None)"
  from CheckResponse_ok [OF r] show "revocationTime \<noteq> 0 \<Longrightarrow> revoked" by auto
  from CheckResponse_ok [OF r] show "\<not> revoked \<Longrightarrow> revocationTime = 0" by auto
  from CheckResponse_ok [OF r]
  show "revoked \<Longrightarrow> \<exists>response.
          ocsp_ParseResponseForCert env responseBytes cert issuerCert = Inr response
          \<and> OCSP_Status response = ocsp_Revoked \<and> revocationTime = RevokedAt response"
    by auto
next
  assume c: "CheckCert env ctx cert issuerCert cl w = ((revoked', revocationTime', None), w')"
  from CheckCert_ok [OF c] obtain rb where
    "CheckResponse env cert issuerCert rb = (revoked', revocationTime', None)" by blast
  from CheckResponse_ok [OF this]
  show "revocationTime' \<noteq> 0 \<Longrightarrow> revoked'" and "\<not> revoked' \<Longrightarrow> revocationTime' = 0"
    by auto
next
  assume "CheckRawCert env ctx certData issuerSubject issuerPubkeyBytes cl w
            = ((revoked'', revocationTime'', None), w'')"
  then obtain c i where
    "CheckCert env ctx c i cl w = ((revoked'', revocationTime'', None), w'')"
    by (auto simp: CheckRawCert_def split: sum.splits)
  from CheckCert_ok [OF this] obtain rb where
    "CheckResponse env c i rb = (revoked'', revocationTime'', None)" by blast
  from CheckResponse_ok [OF this]
  show "revocationTime'' \<noteq> 0 \<Longrightarrow> revoked''" and "\<not> revoked'' \<Longrightarrow> revocationTime'' = 0"
    by auto
qed


lemmas ocsputil_defs =
  ParseCertificate_def CreateRequest_def getOCSPServer_def isOCSPResponderCert_def
  hasOCSPNoCheck_def Query_def Query_newRequest_def Query_readResponse_def
  CheckResponse_def CheckCert_def CheckRawCert_def Config_httpClient_def timedQuery_def
  Evaluate_def Evaluation_zero_def Certificate_zero_def strings_HasPrefix_def
  context_WithTimeout_def context_WithDeadline_def context_Background_def
  http_NewRequestWithContext_def Header_Set_def Header_Get_def QueryTimeout_def
  ocsp_Good_def ocsp_Revoked_def ocsp_Unknown_def ExtKeyUsageOCSPSigning_def
  oidOCSPNoCheck_def

lemmas bench_defs =
  world0_def mock_client_def mock_env_def leaf_cert_def https_only_cert_def
  responder_cert_no_uri_def responder_cert_def issuer_stub_def ocsp_good_def
  ocsp_unknown_def ocsp_revoked_def http_response_def http_ok_def
  http_unavailable_text_def http_ok_text_def http_internal_error_def ctx_deadline_def
  ua_config_def slow_client_def deadline_client_def http_internal_error_truncated_def

theorem successful_check_revocation_time_witness:
  "CheckResponse (mock_env leaf_cert (ocsp_revoked 1650000000) http_ok) leaf_cert issuer_stub
     (Some [0x30, 0x03]) = (True, 1650000000, None)
   \<and> fst (CheckCert (mock_env leaf_cert (ocsp_revoked 1650000000) http_ok)
            context_Background leaf_cert issuer_stub (mock_client http_ok) world0)
       = (True, 1650000000, None)
   \<and> fst (CheckRawCert (mock_env leaf_cert (ocsp_revoked 1650000000) http_ok)
            context_Background (Some [0x30, 0x82]) (Some [0x30, 0x11]) (Some [0x30, 0x59])
            (mock_client http_ok) world0)
       = (True, 1650000000, None)
   \<and> (\<exists>response.
         ocsp_ParseResponseForCert (mock_env leaf_cert (ocsp_revoked 1650000000) http_ok)
           (Some [0x30, 0x03]) leaf_cert issuer_stub = Inr response
         \<and> OCSP_Status response = ocsp_Revoked \<and> 1650000000 = RevokedAt response)"
proof -
  let ?env = "mock_env leaf_cert (ocsp_revoked 1650000000) http_ok"
  let ?cc = "CheckCert ?env context_Background leaf_cert issuer_stub (mock_client http_ok) world0"
  let ?cr = "CheckRawCert ?env context_Background (Some [0x30, 0x82]) (Some [0x30, 0x11])
               (Some [0x30, 0x59]) (mock_client http_ok) world0"
  have h1: "CheckResponse ?env leaf_cert issuer_stub (Some [0x30, 0x03])
              = (True, 1650000000, None)"
    by (simp add: ocsputil_defs bench_defs)
  have f2: "fst ?cc = (True, 1650000000, None)"
    by (simp add: ocsputil_defs bench_defs)
  have f3: "fst ?cr = (True, 1650000000, None)"
    by (simp add: ocsputil_defs bench_defs)
  from f2 have h2: "?cc = ((True, 1650000000, None), snd ?cc)"
    by (simp add: prod_eq_iff)
  from f3 have h3: "?cr = ((True, 1650000000, None), snd ?cr)"
    by (simp add: prod_eq_iff)
  note main = successful_check_revocation_time
  from main [THEN conjunct1, THEN mp, OF h1]
  have a: "\<exists>response.
         ocsp_ParseResponseForCert ?env (Some [0x30, 0x03]) leaf_cert issuer_stub = Inr response
         \<and> OCSP_Status response = ocsp_Revoked \<and> 1650000000 = RevokedAt response"
    by blast
  from main [THEN conjunct2, THEN conjunct1, THEN mp, OF h2]
  have b: "(1650000000::int) \<noteq> 0 \<longrightarrow> True" by blast
  from main [THEN conjunct2, THEN conjunct2, THEN mp, OF h3]
  have c: "(1650000000::int) \<noteq> 0 \<longrightarrow> True" by blast
  from h1 f2 f3 a show ?thesis by blast
qed

text \<open>
  C10. Whenever \<open>CheckResponse\<close> returns an error, it returns \<open>revoked = False\<close> and
  the zero revocation time. \<open>CheckCert\<close> returns the result of \<open>CheckResponse\<close>
  unchanged when it gets that far, and \<open>False\<close> and the zero time with the error of an
  earlier stage; \<open>CheckRawCert\<close> does the same. So no caller sees a verdict or a
  timestamp together with an error.
\<close>

theorem error_carries_no_verdict:
  "(CheckResponse env cert issuerCert responseBytes = (revoked, revocationTime, Some err) \<longrightarrow>
      \<not> revoked \<and> revocationTime = 0)
   \<and> (CreateRequest env cert issuerCert = (serverURL, requestBytes, None)
        \<and> Query env ctx serverURL requestBytes cl w = ((responseBytes', None), w1) \<longrightarrow>
        CheckCert env ctx cert issuerCert cl w
          = (CheckResponse env cert issuerCert responseBytes', w1))
   \<and> (CheckCert env ctx cert issuerCert cl w = ((revoked', revocationTime', Some err'), w') \<longrightarrow>
        \<not> revoked' \<and> revocationTime' = 0)
   \<and> (CheckRawCert env ctx certData issuerSubject issuerPubkeyBytes cl w
         = ((revoked'', revocationTime'', Some err''), w'') \<longrightarrow>
        \<not> revoked'' \<and> revocationTime'' = 0)"
proof -
  have a: "CheckResponse env cert issuerCert responseBytes = (revoked, revocationTime, Some err)
             \<longrightarrow> \<not> revoked \<and> revocationTime = 0"
    by (blast dest: CheckResponse_error_zero)
  have b: "CreateRequest env cert issuerCert = (serverURL, requestBytes, None)
             \<and> Query env ctx serverURL requestBytes cl w = ((responseBytes', None), w1) \<longrightarrow>
           CheckCert env ctx cert issuerCert cl w
             = (CheckResponse env cert issuerCert responseBytes', w1)"
    by (simp add: CheckCert_def)
  have c: "CheckCert env ctx cert issuerCert cl w = ((revoked', revocationTime', Some err'), w')
             \<longrightarrow> \<not> revoked' \<and> revocationTime' = 0"
    by (blast dest: CheckCert_error_zero)
  have d: "CheckRawCert env ctx certData issuerSubject issuerPubkeyBytes cl w
             = ((revoked'', revocationTime'', Some err''), w'')
             \<longrightarrow> \<not> revoked'' \<and> revocationTime'' = 0"
  proof
    assume "CheckRawCert env ctx certData issuerSubject issuerPubkeyBytes cl w
              = ((revoked'', revocationTime'', Some err''), w'')"
    then have "(\<not> revoked'' \<and> revocationTime'' = 0)
               \<or> (\<exists>c i. CheckCert env ctx c i cl w
                           = ((revoked'', revocationTime'', Some err''), w''))"
      by (auto simp: CheckRawCert_def split: sum.splits)
    then show "\<not> revoked'' \<and> revocationTime'' = 0"
      by (auto dest: CheckCert_error_zero)
  qed
  from a b c d show ?thesis by blast
qed

theorem error_carries_no_verdict_witness:
  "CheckResponse (mock_env leaf_cert ocsp_unknown http_ok) leaf_cert issuer_stub
     (Some [0x30, 0x03]) = (False, 0, Some ErrUnknown)
   \<and> CheckCert (mock_env leaf_cert ocsp_unknown http_ok) context_Background leaf_cert
        issuer_stub (mock_client http_ok) world0
       = (CheckResponse (mock_env leaf_cert ocsp_unknown http_ok) leaf_cert issuer_stub
            (Some [0x30, 0x03, 0x0A, 0x01, 0x00]),
          snd (Query (mock_env leaf_cert ocsp_unknown http_ok) context_Background
                 ''http://ocsp.example.com'' (Some [0x30, 0x03, 0x0A, 0x01, 0x00])
                 (mock_client http_ok) world0))
   \<and> fst (CheckCert (mock_env leaf_cert ocsp_unknown http_ok) context_Background leaf_cert
            issuer_stub (mock_client http_ok) world0)
       = (False, 0, Some ErrUnknown)
   \<and> fst (CheckRawCert (mock_env leaf_cert ocsp_unknown http_ok) context_Background
            None (Some [0x30, 0x11]) (Some [0x30, 0x59]) (mock_client http_ok) world0)
       = (False, 0,
          Some (ErrorfW ''unable to parse certificate: ''
                  (LibError ''x509: malformed certificate'')))"
proof -
  let ?env = "mock_env leaf_cert ocsp_unknown http_ok"
  let ?rb = "Some [0x30, 0x03, 0x0A, 0x01, 0x00] :: bytes"
  let ?q = "Query ?env context_Background ''http://ocsp.example.com'' ?rb
              (mock_client http_ok) world0"
  let ?cc = "CheckCert ?env context_Background leaf_cert issuer_stub (mock_client http_ok) world0"
  let ?cr = "CheckRawCert ?env context_Background None (Some [0x30, 0x11]) (Some [0x30, 0x59])
               (mock_client http_ok) world0"
  let ?perr = "ErrorfW ''unable to parse certificate: '' (LibError ''x509: malformed certificate'')"
  note main = error_carries_no_verdict
  have h1: "CheckResponse ?env leaf_cert issuer_stub (Some [0x30, 0x03])
              = (False, 0, Some ErrUnknown)"
    by (simp add: ocsputil_defs bench_defs)
  have hc: "CreateRequest ?env leaf_cert issuer_stub = (''http://ocsp.example.com'', ?rb, None)"
    by (simp add: ocsputil_defs bench_defs)
  have "fst ?q = (?rb, None)"
    by (simp add: ocsputil_defs bench_defs)
  then have hq: "?q = ((?rb, None), snd ?q)"
    by (simp add: prod_eq_iff)
  from main [THEN conjunct2, THEN conjunct1, THEN mp, OF conjI, OF hc hq]
  have pass: "?cc = (CheckResponse ?env leaf_cert issuer_stub ?rb, snd ?q)" .
  have "CheckResponse ?env leaf_cert issuer_stub ?rb = (False, 0, Some ErrUnknown)"
    by (simp add: ocsputil_defs bench_defs)
  with pass have h3: "?cc = ((False, 0, Some ErrUnknown), snd ?cc)"
    by simp
  have "fst ?cr = (False, 0, Some ?perr)"
    by (simp add: ocsputil_defs bench_defs)
  then have h4: "?cr = ((False, 0, Some ?perr), snd ?cr)"
    by (simp add: prod_eq_iff)
  from main [THEN conjunct1, THEN mp, OF h1]
  have a: "\<not> False \<and> (0::int) = 0" .
  from main [THEN conjunct2, THEN conjunct2, THEN conjunct1, THEN mp, OF h3]
  have b: "\<not> False \<and> (0::int) = 0" .
  from main [THEN conjunct2, THEN conjunct2, THEN conjunct2, THEN mp, OF h4]
  have c: "\<not> False \<and> (0::int) = 0" .
  from h1 pass h3 h4 a b c show ?thesis
    by (metis fst_conv)
qed

section \<open>The HTTP exchange\<close>

lemma Query_after_newRequest:
  assumes "Query_newRequest env ctx serverURL requestBytes w0 = (Inr httpRequest, w1)"
  shows "Query env ctx serverURL requestBytes cl w0 =
           (case cl httpRequest w1 of
              (Inl err, w2) \<Rightarrow>
                ((None, Some (ErrorfW ''error querying OCSP responder over HTTP: '' err)), w2)
            | (Inr httpResponse, w2) \<Rightarrow> (Query_readResponse httpResponse, w2))"
  using assms by (simp add: Query_def)

lemma Query_after_Do:
  assumes "Query_newRequest env ctx serverURL requestBytes w0 = (Inr httpRequest, w1)"
    and "cl httpRequest w1 = (Inr httpResponse, w2)"
  shows "Query env ctx serverURL requestBytes cl w0 = (Query_readResponse httpResponse, w2)"
  using assms by (simp add: Query_def)

lemma Query_newRequest_headers:
  assumes "Query_newRequest env ctx serverURL requestBytes w0 = (Inr httpRequest, w1)"
  shows "Method httpRequest = ''POST''
         \<and> ReqHeader httpRequest =
             [''Content-Type'' \<mapsto> [''application/ocsp-request''], ''Idempotency-Key'' \<mapsto> []]"
  using assms
  by (auto simp: Query_newRequest_def http_NewRequestWithContext_def Header_Set_def
        split: prod.splits sum.splits)

lemma sublist_append_left: "sublist xs ys \<Longrightarrow> sublist xs (zs @ ys)"
  by (simp add: sublist_append)

text \<open>
  C3, as stated, fails: the status code is tested before the Content-Type, so a
  response with status 503 and Content-Type \<^verbatim>\<open>text/plain\<close> is answered with the HTTP
  error, not with the invalid-content-type error.
\<close>

theorem Query_status_before_content_type_counterexample:
  "StatusCode http_unavailable_text = 503
   \<and> Header_Get (RespHeader http_unavailable_text) ''Content-Type'' = ''text/plain''
   \<and> snd (fst (Query (mock_env leaf_cert ocsp_good http_ok) context_Background
                  ''http://ocsp.example.com'' (Some [0x30, 0x03])
                  (mock_client http_unavailable_text) world0))
       = Some (Errorf ''HTTP error from OCSP responder: 503 Service Unavailable'')
   \<and> snd (fst (Query (mock_env leaf_cert ocsp_good http_ok) context_Background
                  ''http://ocsp.example.com'' (Some [0x30, 0x03])
                  (mock_client http_unavailable_text) world0))
       \<noteq> Some (Errorf ''HTTP response header has invalid Content-Type value text/plain'')"
  by (simp add: ocsputil_defs bench_defs)

text \<open>
  C3, amended. For every HTTP response \<open>httpResponse\<close> that \<open>Query\<close> receives from
  the client: if the status is not 200 or the Content-Type header is not
  \<^verbatim>\<open>application/ocsp-response\<close>, \<open>Query\<close> fails. When the body was read without
  error, a status other than 200 gives the HTTP error, whose message ends with the
  status text of the response, whatever the Content-Type is; so for status 503 the
  message contains \<^verbatim>\<open>503\<close> when the status text does. The invalid-content-type error
  is the result when the status is 200 and the Content-Type is not
  \<^verbatim>\<open>application/ocsp-response\<close>.
\<close>

theorem Query_rejects_response:
  assumes "Query_newRequest env ctx serverURL requestBytes w0 = (Inr httpRequest, w1)"
    and "cl httpRequest w1 = (Inr httpResponse, w2)"
  shows "(StatusCode httpResponse \<noteq> 200
            \<or> Header_Get (RespHeader httpResponse) ''Content-Type''
                \<noteq> ''application/ocsp-response'' \<longrightarrow>
          (\<exists>err. Query env ctx serverURL requestBytes cl w0 = ((None, Some err), w2)))
       \<and> (snd (RespBody httpResponse) = None \<and> StatusCode httpResponse \<noteq> 200 \<longrightarrow>
            Query env ctx serverURL requestBytes cl w0 =
              ((None, Some (Errorf (''HTTP error from OCSP responder: ''
                                    @ Status httpResponse))), w2))
       \<and> (snd (RespBody httpResponse) = None \<and> StatusCode httpResponse = 503
            \<and> sublist ''503'' (Status httpResponse) \<longrightarrow>
            (\<exists>err. Query env ctx serverURL requestBytes cl w0 = ((None, Some err), w2)
                   \<and> sublist ''503'' (Error err)))
       \<and> (snd (RespBody httpResponse) = None \<and> StatusCode httpResponse = 200
            \<and> Header_Get (RespHeader httpResponse) ''Content-Type''
                \<noteq> ''application/ocsp-response'' \<longrightarrow>
            Query env ctx serverURL requestBytes cl w0 =
              ((None,
                Some (Errorf (''HTTP response header has invalid Content-Type value ''
                              @ Header_Get (RespHeader httpResponse) ''Content-Type''))), w2))"
proof -
  from assms
  have q: "Query env ctx serverURL requestBytes cl w0 = (Query_readResponse httpResponse, w2)"
    by (rule Query_after_Do)
  have a: "StatusCode httpResponse \<noteq> 200
            \<or> Header_Get (RespHeader httpResponse) ''Content-Type''
                \<noteq> ''application/ocsp-response'' \<longrightarrow>
          (\<exists>err. Query env ctx serverURL requestBytes cl w0 = ((None, Some err), w2))"
    by (auto simp: q Query_readResponse_def Let_def split: prod.splits option.splits)
  have b: "snd (RespBody httpResponse) = None \<and> StatusCode httpResponse \<noteq> 200 \<longrightarrow>
            Query env ctx serverURL requestBytes cl w0 =
              ((None, Some (Errorf (''HTTP error from OCSP responder: ''
                                    @ Status httpResponse))), w2)"
    by (auto simp: q Query_readResponse_def split: prod.splits option.splits)
  have c: "snd (RespBody httpResponse) = None \<and> StatusCode httpResponse = 503
            \<and> sublist ''503'' (Status httpResponse) \<longrightarrow>
            (\<exists>err. Query env ctx serverURL requestBytes cl w0 = ((None, Some err), w2)
                   \<and> sublist ''503'' (Error err))"
  proof
    assume h: "snd (RespBody httpResponse) = None \<and> StatusCode httpResponse = 503
            \<and> sublist ''503'' (Status httpResponse)"
    with b have "Query env ctx serverURL requestBytes cl w0 =
              ((None, Some (Errorf (''HTTP error from OCSP responder: ''
                                    @ Status httpResponse))), w2)"
      by simp
    moreover from h have "sublist ''503''
        (Error (Errorf (''HTTP error from OCSP responder: '' @ Status httpResponse)))"
      by (simp only: Error.simps sublist_append_left)
    ultimately show "\<exists>err. Query env ctx serverURL requestBytes cl w0 = ((None, Some err), w2)
                   \<and> sublist ''503'' (Error err)"
      by blast
  qed
  have d: "snd (RespBody httpResponse) = None \<and> StatusCode httpResponse = 200
            \<and> Header_Get (RespHeader httpResponse) ''Content-Type''
                \<noteq> ''application/ocsp-response'' \<longrightarrow>
            Query env ctx serverURL requestBytes cl w0 =
              ((None,
                Some (Errorf (''HTTP response header has invalid Content-Type value ''
                              @ Header_Get (RespHeader httpResponse) ''Content-Type''))), w2)"
    by (auto simp: q Query_readResponse_def Let_def split: prod.splits option.splits)
  from a b c d show ?thesis by blast
qed


theorem Query_rejects_response_witness:
  "Query (mock_env leaf_cert ocsp_good http_ok) context_Background ''http://ocsp.example.com''
     (Some [0x30, 0x03]) (mock_client http_unavailable_text) world0
     = ((None, Some (Errorf ''HTTP error from OCSP responder: 503 Service Unavailable'')),
        world0\<lparr>clock := 250001000,
               sent := [\<lparr>Method = ''POST'', URL = ''http://ocsp.example.com'',
                         ReqHeader = [''Content-Type'' \<mapsto> [''application/ocsp-request''],
                                      ''Idempotency-Key'' \<mapsto> []],
                         ReqBody = [0x30, 0x03], Ctx = \<lparr>Deadline = Some 10000001000\<rparr>\<rparr>]\<rparr>)
   \<and> Query (mock_env leaf_cert ocsp_good http_ok) context_Background ''http://ocsp.example.com''
       (Some [0x30, 0x03]) (mock_client http_ok_text) world0
     = ((None, Some (Errorf ''HTTP response header has invalid Content-Type value text/plain'')),
        world0\<lparr>clock := 250001000,
               sent := [\<lparr>Method = ''POST'', URL = ''http://ocsp.example.com'',
                         ReqHeader = [''Content-Type'' \<mapsto> [''application/ocsp-request''],
                                      ''Idempotency-Key'' \<mapsto> []],
                         ReqBody = [0x30, 0x03], Ctx = \<lparr>Deadline = Some 10000001000\<rparr>\<rparr>]\<rparr>)
   \<and> (\<exists>err. fst (Query (mock_env leaf_cert ocsp_good http_ok) context_Background
                     ''http://ocsp.example.com'' (Some [0x30, 0x03])
                     (mock_client http_unavailable_text) world0) = (None, Some err)
            \<and> sublist ''503'' (Error err))"
proof -
  let ?env = "mock_env leaf_cert ocsp_good http_ok"
  let ?req = "\<lparr>Method = ''POST'', URL = ''http://ocsp.example.com'',
                ReqHeader = [''Content-Type'' \<mapsto> [''application/ocsp-request''],
                             ''Idempotency-Key'' \<mapsto> []],
                ReqBody = [0x30, 0x03], Ctx = \<lparr>Deadline = Some 10000001000\<rparr>\<rparr>"
  let ?w2 = "world0\<lparr>clock := 250001000, sent := [?req]\<rparr>"
  have new: "Query_newRequest ?env context_Background ''http://ocsp.example.com''
               (Some [0x30, 0x03]) world0 = (Inr ?req, world0)"
    by (simp add: ocsputil_defs bench_defs)
  have do1: "mock_client http_unavailable_text ?req world0 = (Inr http_unavailable_text, ?w2)"
    by (simp add: bench_defs)
  have do2: "mock_client http_ok_text ?req world0 = (Inr http_ok_text, ?w2)"
    by (simp add: bench_defs)
  have s503: "snd (RespBody http_unavailable_text) = None
              \<and> StatusCode http_unavailable_text = 503
              \<and> sublist ''503'' (Status http_unavailable_text)"
    by (simp add: bench_defs prefix_imp_sublist)
  have s200: "snd (RespBody http_ok_text) = None \<and> StatusCode http_ok_text = 200
              \<and> Header_Get (RespHeader http_ok_text) ''Content-Type''
                  \<noteq> ''application/ocsp-response''"
    by (simp add: bench_defs Header_Get_def)
  have st: "Status http_unavailable_text = ''503 Service Unavailable''"
    and ct: "Header_Get (RespHeader http_ok_text) ''Content-Type'' = ''text/plain''"
    by (simp_all add: bench_defs Header_Get_def)
  note r1 = Query_rejects_response [where cl = "mock_client http_unavailable_text", OF new do1]
  note r2 = Query_rejects_response [where cl = "mock_client http_ok_text", OF new do2]
  from r1 s503 st
  have a: "Query ?env context_Background ''http://ocsp.example.com'' (Some [0x30, 0x03])
             (mock_client http_unavailable_text) world0
           = ((None, Some (Errorf ''HTTP error from OCSP responder: 503 Service Unavailable'')),
              ?w2)"
    by simp
  from r1 s503
  have b: "\<exists>err. Query ?env context_Background ''http://ocsp.example.com'' (Some [0x30, 0x03])
                   (mock_client http_unavailable_text) world0 = ((None, Some err), ?w2)
                 \<and> sublist ''503'' (Error err)"
    by blast
  from r2 s200 ct
  have c: "Query ?env context_Background ''http://ocsp.example.com'' (Some [0x30, 0x03])
             (mock_client http_ok_text) world0
           = ((None,
               Some (Errorf ''HTTP response header has invalid Content-Type value text/plain'')),
              ?w2)"
    by simp
  from b have b': "\<exists>err. fst (Query ?env context_Background ''http://ocsp.example.com''
                     (Some [0x30, 0x03]) (mock_client http_unavailable_text) world0)
                       = (None, Some err)
                 \<and> sublist ''503'' (Error err)"
    by auto
  from a c b' show ?thesis by blast
qed

text \<open>
  C9, as stated, fails: \<open>Query\<close> has no timer of its own. It puts the deadline
  on the context of the request and waits for the client, so a client that does not
  look at the context keeps \<open>Query\<close> waiting. Here the client answers after an hour,
  the deadline of the request is ten seconds after the start, and \<open>Query\<close> returns
  the response when the hour is over.
\<close>

theorem Query_waits_for_slow_client_counterexample:
  "fst (time_Now (mock_env leaf_cert ocsp_good http_ok) world0) = 1000
   \<and> map (Deadline \<circ> Ctx)
        (sent (snd (Query (mock_env leaf_cert ocsp_good http_ok) context_Background
                      ''http://ocsp.example.com'' (Some [0x30, 0x03])
                      (slow_client http_ok) world0)))
       = [Some 10000001000]
   \<and> fst (Query (mock_env leaf_cert ocsp_good http_ok) context_Background
             ''http://ocsp.example.com'' (Some [0x30, 0x03]) (slow_client http_ok) world0)
       = (Some [0x30, 0x03, 0x0A, 0x01, 0x00], None)
   \<and> fst (time_Now (mock_env leaf_cert ocsp_good http_ok)
             (snd (Query (mock_env leaf_cert ocsp_good http_ok) context_Background
                     ''http://ocsp.example.com'' (Some [0x30, 0x03])
                     (slow_client http_ok) world0)))
       = 3600000001000"
  by (simp add: ocsputil_defs bench_defs)

text \<open>
  C9, amended. \<open>Query\<close> reads the clock first (\<open>now\<close>) and hands the client a
  request whose context has a deadline: \<open>now\<close> plus \<open>QueryTimeout\<close>, ten seconds,
  when the caller's context has no deadline, and the earlier of that and the caller's
  deadline otherwise. So the deadline is never later than ten seconds after the start
  of the call, nor later than the caller's deadline. The request is the one every
  client is called with. With a client that honours the deadline of the context of
  its request (it returns by the deadline, or at once when the deadline has passed
  already), \<open>Query\<close> returns by the shorter of the two bounds; with a client that
  does not, \<open>Query\<close> waits for the client. (When the URL does not parse, no request
  is made.)
\<close>

theorem Query_request_deadline:
  assumes "time_Now env w0 = (now, w1)"
    and "url_Parse env serverURL = Inr u"
  shows "(\<exists>httpRequest.
           (\<forall>cl. Query env ctx serverURL requestBytes cl w0 =
             (case cl httpRequest w1 of
                (Inl err, w2) \<Rightarrow>
                  ((None, Some (ErrorfW ''error querying OCSP responder over HTTP: '' err)), w2)
              | (Inr httpResponse, w2) \<Rightarrow> (Query_readResponse httpResponse, w2)))
           \<and> Deadline (Ctx httpRequest) =
               Some (case Deadline ctx of
                       None \<Rightarrow> now + QueryTimeout
                     | Some d0 \<Rightarrow> min d0 (now + QueryTimeout))
           \<and> (\<exists>d. Deadline (Ctx httpRequest) = Some d
                   \<and> d \<le> now + 10 * 1000000000
                   \<and> (\<forall>d0. Deadline ctx = Some d0 \<longrightarrow> d \<le> d0)))
         \<and> (\<forall>cl.
              (\<forall>req w d. Deadline (Ctx req) = Some d \<longrightarrow>
                 fst (time_Now env (snd (cl req w))) \<le> max d (fst (time_Now env w))) \<longrightarrow>
              fst (time_Now env (snd (Query env ctx serverURL requestBytes cl w0)))
                \<le> max (case Deadline ctx of
                          None \<Rightarrow> now + QueryTimeout
                        | Some d0 \<Rightarrow> min d0 (now + QueryTimeout))
                      (fst (time_Now env w1)))"
proof -
  let ?ctx' = "context_WithDeadline ctx (now + QueryTimeout)"
  let ?req = "\<lparr>Method = ''POST'', URL = u,
                ReqHeader = [''Content-Type'' \<mapsto> [''application/ocsp-request''],
                             ''Idempotency-Key'' \<mapsto> []],
                ReqBody = (case requestBytes of None \<Rightarrow> [] | Some b \<Rightarrow> b), Ctx = ?ctx'\<rparr>"
  let ?D = "case Deadline ctx of
              None \<Rightarrow> now + QueryTimeout
            | Some d0 \<Rightarrow> min d0 (now + QueryTimeout)"
  from assms
  have new: "Query_newRequest env ctx serverURL requestBytes w0 = (Inr ?req, w1)"
    by (simp add: Query_newRequest_def context_WithTimeout_def http_NewRequestWithContext_def
          Header_Set_def)
  have dl: "Deadline ?ctx' = Some ?D"
    by (simp add: context_WithDeadline_def min_def split: option.split)
  have bound: "\<exists>d. Deadline ?ctx' = Some d \<and> d \<le> now + 10 * 1000000000
                 \<and> (\<forall>d0. Deadline ctx = Some d0 \<longrightarrow> d \<le> d0)"
    unfolding dl by (cases "Deadline ctx") (simp_all add: QueryTimeout_def)
  from new have run: "\<forall>cl. Query env ctx serverURL requestBytes cl w0 =
             (case cl ?req w1 of
                (Inl err, w2) \<Rightarrow>
                  ((None, Some (ErrorfW ''error querying OCSP responder over HTTP: '' err)), w2)
              | (Inr httpResponse, w2) \<Rightarrow> (Query_readResponse httpResponse, w2))"
    by (simp add: Query_after_newRequest)
  from run dl bound have first: "\<exists>httpRequest.
           (\<forall>cl. Query env ctx serverURL requestBytes cl w0 =
             (case cl httpRequest w1 of
                (Inl err, w2) \<Rightarrow>
                  ((None, Some (ErrorfW ''error querying OCSP responder over HTTP: '' err)), w2)
              | (Inr httpResponse, w2) \<Rightarrow> (Query_readResponse httpResponse, w2)))
           \<and> Deadline (Ctx httpRequest) = Some ?D
           \<and> (\<exists>d. Deadline (Ctx httpRequest) = Some d
                   \<and> d \<le> now + 10 * 1000000000
                   \<and> (\<forall>d0. Deadline ctx = Some d0 \<longrightarrow> d \<le> d0))"
    by (intro exI [of _ ?req]) simp
  have second: "fst (time_Now env (snd (Query env ctx serverURL requestBytes cl w0)))
                  \<le> max ?D (fst (time_Now env w1))"
    if honours: "\<forall>req w d. Deadline (Ctx req) = Some d \<longrightarrow>
                   fst (time_Now env (snd (cl req w))) \<le> max d (fst (time_Now env w))"
    for cl
  proof -
    from run have "snd (Query env ctx serverURL requestBytes cl w0) = snd (cl ?req w1)"
      by (simp split: prod.split sum.split)
    moreover from dl have "Deadline (Ctx ?req) = Some ?D"
      by simp
    with honours have "fst (time_Now env (snd (cl ?req w1))) \<le> max ?D (fst (time_Now env w1))"
      by blast
    ultimately show ?thesis by simp
  qed
  from first second show ?thesis by blast
qed

theorem Query_request_deadline_witness:
  "(\<exists>httpRequest.
      Query (mock_env leaf_cert ocsp_good http_ok) context_Background
        ''http://ocsp.example.com'' (Some [0x30, 0x03]) (mock_client http_ok) world0
        = (case mock_client http_ok httpRequest world0 of
             (Inl err, w2) \<Rightarrow>
               ((None, Some (ErrorfW ''error querying OCSP responder over HTTP: '' err)), w2)
           | (Inr httpResponse, w2) \<Rightarrow> (Query_readResponse httpResponse, w2))
      \<and> Deadline (Ctx httpRequest) = Some 10000001000)
   \<and> (\<exists>httpRequest.
      Query (mock_env leaf_cert ocsp_good http_ok) (ctx_deadline 5000)
        ''http://ocsp.example.com'' (Some [0x30, 0x03]) (mock_client http_ok) world0
        = (case mock_client http_ok httpRequest world0 of
             (Inl err, w2) \<Rightarrow>
               ((None, Some (ErrorfW ''error querying OCSP responder over HTTP: '' err)), w2)
           | (Inr httpResponse, w2) \<Rightarrow> (Query_readResponse httpResponse, w2))
      \<and> Deadline (Ctx httpRequest) = Some 5000)
   \<and> fst (time_Now (mock_env leaf_cert ocsp_good http_ok)
             (snd (Query (mock_env leaf_cert ocsp_good http_ok) context_Background
                     ''http://ocsp.example.com'' (Some [0x30, 0x03])
                     (deadline_client 3600000000000 http_ok) world0)))
       \<le> 10000001000
   \<and> fst (time_Now (mock_env leaf_cert ocsp_good http_ok)
             (snd (Query (mock_env leaf_cert ocsp_good http_ok) (ctx_deadline 5000)
                     ''http://ocsp.example.com'' (Some [0x30, 0x03])
                     (deadline_client 3600000000000 http_ok) world0)))
       \<le> 5000"
proof -
  let ?env = "mock_env leaf_cert ocsp_good http_ok"
  let ?cl = "deadline_client 3600000000000 http_ok"
  have now: "time_Now ?env world0 = (1000, world0)"
    and url: "url_Parse ?env ''http://ocsp.example.com'' = Inr ''http://ocsp.example.com''"
    by (simp_all add: bench_defs)
  have d1: "(case Deadline context_Background of
               None \<Rightarrow> 1000 + QueryTimeout
             | Some d0 \<Rightarrow> min d0 (1000 + QueryTimeout)) = 10000001000"
    and d2: "(case Deadline (ctx_deadline 5000) of
               None \<Rightarrow> 1000 + QueryTimeout
             | Some d0 \<Rightarrow> min d0 (1000 + QueryTimeout)) = 5000"
    by (simp_all add: context_Background_def ctx_deadline_def QueryTimeout_def)
  have honours: "\<forall>req w d. Deadline (Ctx req) = Some d \<longrightarrow>
                   fst (time_Now ?env (snd (?cl req w))) \<le> max d (fst (time_Now ?env w))"
    by (simp add: mock_env_def deadline_client_def)
  have start: "max 10000001000 (fst (time_Now ?env world0)) = 10000001000"
    and start': "max 5000 (fst (time_Now ?env world0)) = 5000"
    by (simp_all add: bench_defs)
  note main1 = Query_request_deadline [OF now url, of context_Background "Some [0x30, 0x03]"]
  note main2 = Query_request_deadline [OF now url, of "ctx_deadline 5000" "Some [0x30, 0x03]"]
  from main1 [THEN conjunct1] d1
  have a: "\<exists>httpRequest.
      Query ?env context_Background
        ''http://ocsp.example.com'' (Some [0x30, 0x03]) (mock_client http_ok) world0
        = (case mock_client http_ok httpRequest world0 of
             (Inl err, w2) \<Rightarrow>
               ((None, Some (ErrorfW ''error querying OCSP responder over HTTP: '' err)), w2)
           | (Inr httpResponse, w2) \<Rightarrow> (Query_readResponse httpResponse, w2))
      \<and> Deadline (Ctx httpRequest) = Some 10000001000"
    by (simp only:) blast
  from main2 [THEN conjunct1] d2
  have b: "\<exists>httpRequest.
      Query ?env (ctx_deadline 5000)
        ''http://ocsp.example.com'' (Some [0x30, 0x03]) (mock_client http_ok) world0
        = (case mock_client http_ok httpRequest world0 of
             (Inl err, w2) \<Rightarrow>
               ((None, Some (ErrorfW ''error querying OCSP responder over HTTP: '' err)), w2)
           | (Inr httpResponse, w2) \<Rightarrow> (Query_readResponse httpResponse, w2))
      \<and> Deadline (Ctx httpRequest) = Some 5000"
    by (simp only:) blast
  from main1 [THEN conjunct2, rule_format, of ?cl] honours
  have "fst (time_Now ?env (snd (Query ?env context_Background ''http://ocsp.example.com''
                                   (Some [0x30, 0x03]) ?cl world0)))
          \<le> max (case Deadline context_Background of
                    None \<Rightarrow> 1000 + QueryTimeout
                  | Some d0 \<Rightarrow> min d0 (1000 + QueryTimeout))
                (fst (time_Now ?env world0))"
    by blast
  with d1 start
  have c: "fst (time_Now ?env (snd (Query ?env context_Background ''http://ocsp.example.com''
                                   (Some [0x30, 0x03]) ?cl world0))) \<le> 10000001000"
    by (simp only:)
  from main2 [THEN conjunct2, rule_format, of ?cl] honours
  have "fst (time_Now ?env (snd (Query ?env (ctx_deadline 5000) ''http://ocsp.example.com''
                                   (Some [0x30, 0x03]) ?cl world0)))
          \<le> max (case Deadline (ctx_deadline 5000) of
                    None \<Rightarrow> 1000 + QueryTimeout
                  | Some d0 \<Rightarrow> min d0 (1000 + QueryTimeout))
                (fst (time_Now ?env world0))"
    by blast
  with d2 start'
  have d: "fst (time_Now ?env (snd (Query ?env (ctx_deadline 5000) ''http://ocsp.example.com''
                                   (Some [0x30, 0x03]) ?cl world0))) \<le> 5000"
    by (simp only:)
  from a b c d show ?thesis by blast
qed

text \<open>
  C5 against the code. \<open>Evaluate\<close> is given a configuration whose User-Agent is
  \<^verbatim>\<open>evalocsp/1.0\<close>. The one request that goes out is a POST with Content-Type
  \<^verbatim>\<open>application/ocsp-request\<close>, and it has no User-Agent header: \<open>Query\<close> sets the
  Content-Type and the Idempotency-Key only.
\<close>

theorem Evaluate_sends_no_User_Agent:
  "Config_userAgent (Some ua_config) = ''evalocsp/1.0''
   \<and> map (\<lambda>r. (Method r, ReqHeader r ''Content-Type'', ReqHeader r ''User-Agent''))
       (sent (snd (Evaluate (mock_env leaf_cert ocsp_good http_ok) context_Background
                     (Some [0x30, 0x82]) (Some [0x30, 0x11]) (Some [0x30, 0x59])
                     (Some ua_config) world0)))
     = [(''POST'', Some [''application/ocsp-request''], None)]"
  by (simp add: Config_userAgent_def ocsputil_defs bench_defs)

section \<open>Evaluate\<close>


lemma Query_readResponse_cases:
  "(\<exists>body. Query_readResponse httpResponse = (Some body, None))
   \<or> (\<exists>err. Query_readResponse httpResponse = (None, Some err))"
  by (auto simp: Query_readResponse_def Let_def split: prod.splits option.splits)

lemma Query_cases:
  "(\<exists>body. fst (Query env ctx serverURL requestBytes cl w) = (Some body, None))
   \<or> (\<exists>err. fst (Query env ctx serverURL requestBytes cl w) = (None, Some err))"
proof (cases "Query_newRequest env ctx serverURL requestBytes w")
  case (Pair r w1)
  show ?thesis
  proof (cases r)
    case (Inl err)
    with Pair show ?thesis by (simp add: Query_def)
  next
    case (Inr httpRequest)
    show ?thesis
    proof (cases "cl httpRequest w1")
      case (Pair a w2)
      with \<open>Query_newRequest env ctx serverURL requestBytes w = (r, w1)\<close> Inr
        Query_readResponse_cases [of "projr a"]
      show ?thesis by (cases a) (auto simp: Query_def)
    qed
  qed
qed

lemma timedQuery_Query:
  "timedQuery env ctx serverURL requestBytes config w = ((responseBytes, responseTime, err), w')
     \<Longrightarrow> \<exists>w1. fst (Query env ctx serverURL requestBytes (Config_httpClient env config) w1)
                 = (responseBytes, err)"
  by (auto simp: timedQuery_def split: prod.splits intro: exI [of _ "snd (time_Now env w)"])


lemma timedQuery_error:
  assumes "timedQuery env ctx serverURL requestBytes config w
             = ((responseBytes, responseTime, Some err), w')"
  shows "responseBytes = None"
proof -
  from timedQuery_Query [OF assms] obtain w1 where
    q: "fst (Query env ctx serverURL requestBytes (Config_httpClient env config) w1)
          = (responseBytes, Some err)"
    by blast
  with Query_cases [of env ctx serverURL requestBytes "Config_httpClient env config" w1]
  show ?thesis by auto
qed

















end
